theory Spec2Isabelle
  imports Complex_Main "HOL-Library.Multiset"
begin

section \<open>Constants of bandstop.py\<close>

text \<open>
  The module-level constants (lines 20--23). Python integers are unbounded, and the
  index arrays are numpy int64 arrays whose values stay far below \<open>2^63\<close> for any
  audio file (an index is below half a window, a frequency below the sample rate), so
  integers are modelled as \<open>int\<close>.
\<close>

definition FFT_SAMPLE_SIZE :: int where
  "FFT_SAMPLE_SIZE = 10000"

definition FREQUENCY_MAXIMUM_DIFFERENTIATING_DIFFERENCE :: int where
  "FREQUENCY_MAXIMUM_DIFFERENTIATING_DIFFERENCE = 50"

definition FREQUENCY_BANDSTOP_MARGIN :: int where
  "FREQUENCY_BANDSTOP_MARGIN = 50"

definition FREQUENCY_MINIMUM_COUNT :: int where
  "FREQUENCY_MINIMUM_COUNT = 20"

definition num_outstanding :: nat where
  "num_outstanding = 3"

section \<open>Errors and the library functions the program calls\<close>

text \<open>
  Every exception the modelled code can raise is a value. \<open>DepthException\<close> carries
  the message that \<open>process\<close> prints.
\<close>

datatype error = ValueError | IndexError | IOError | DepthException string

text \<open>
  The object built by \<open>Sound(fs, snd)\<close> (module \<open>sound\<close>); the program reads these
  five attributes.
\<close>

record sndobj =
  fs :: int
  samples :: int
  channels :: int
  duration :: real
  depth :: int

text \<open>
  The array returned by \<open>wavfile.read\<close>: its element type, which holds the bit depth
  of the file, and its columns (\<open>snd.T\<close>), one per channel. Samples are modelled as
  reals, integer samples among them.
\<close>

datatype dtype = UInt8 | Int16 | Int32 | Float32 | Float64

record ndarray =
  dtype :: dtype
  columns :: "real list list"

text \<open>
  The functions of numpy, scipy and the \<open>sound\<close> module are parameters of the model:
  \<^item> \<open>fft\<close> is \<open>scipy.fftpack.fft\<close>;
  \<^item> \<open>argpartition a\<close> is \<open>np.argpartition(a, -3)\<close> for an array of at least three
    elements: an array of indices whose last three point at the three largest elements
    (which of several equal elements are taken is left to the implementation);
  \<^item> \<open>iirnotch w0 q\<close> and \<open>filtfilt b a x\<close> are the functions of \<open>scipy.signal\<close>,
    which raise on arguments they reject;
  \<^item> \<open>wavfile_read\<close> is \<open>scipy.io.wavfile.read\<close>, returning the rate and the
    array, and \<open>Sound\<close> is the constructor of the \<open>sound\<close> module.
\<close>

record library =
  fft :: "real list \<Rightarrow> complex list"
  argpartition :: "real list \<Rightarrow> nat list"
  iirnotch :: "real \<Rightarrow> real \<Rightarrow> error + (real list \<times> real list)"
  filtfilt :: "real list \<Rightarrow> real list \<Rightarrow> real list \<Rightarrow> error + real list"
  wavfile_read :: "string \<Rightarrow> error + (int \<times> ndarray)"
  Sound :: "int \<Rightarrow> ndarray \<Rightarrow> error + sndobj"

section \<open>find_outstanding_frequencies (lines 63--102)\<close>

text \<open>\<open>np.diff\<close>: element \<open>i\<close> of the result is \<open>a[i+1] - a[i]\<close>.\<close>

definition np_diff :: "real list \<Rightarrow> real list" where
  "np_diff a = map (\<lambda>(x, y). y - x) (zip a (tl a))"

text \<open>
  \<open>np.argpartition(a, -num_outstanding)[-num_outstanding:]\<close>. numpy raises
  \<open>ValueError\<close> (kth out of bounds) when the array has fewer than three elements.
\<close>

definition outstanding :: "library \<Rightarrow> real list \<Rightarrow> error + nat list" where
  "outstanding lib a =
     (if length a < num_outstanding then Inl ValueError
      else Inr (drop (length (argpartition lib a) - num_outstanding) (argpartition lib a)))"

text \<open>Lines 77--78: \<open>(ind * sndobj.fs)//points_per_sample\<close>, elementwise.\<close>

definition normalize :: "int \<Rightarrow> int \<Rightarrow> int list \<Rightarrow> int list" where
  "normalize rate points_per_sample ind = map (\<lambda>i. (i * rate) div points_per_sample) ind"

text \<open>
  Lines 96--102, the two nested loops over the normalized arrays; \<open>ret\<close> is the list
  appended to.
\<close>

fun pair_inner :: "int \<Rightarrow> int list \<Rightarrow> (int \<times> int) list \<Rightarrow> (int \<times> int) list" where
  "pair_inner ind1 [] ret = ret"
| "pair_inner ind1 (ind2 # low_ind) ret =
     pair_inner ind1 low_ind
       (if \<bar>ind1 - ind2\<bar> < FREQUENCY_MAXIMUM_DIFFERENTIATING_DIFFERENCE
        then ret @ [if ind2 > ind1 then (ind1, ind2) else (ind2, ind1)]
        else ret)"

fun pair_outer :: "int list \<Rightarrow> int list \<Rightarrow> (int \<times> int) list \<Rightarrow> (int \<times> int) list" where
  "pair_outer [] low_ind ret = ret"
| "pair_outer (ind1 # high_ind) low_ind ret =
     pair_outer high_ind low_ind (pair_inner ind1 low_ind ret)"

text \<open>
  Lines 76--102 for given selected bin indices: the normalization rebinds \<open>low_ind\<close>
  and \<open>high_ind\<close>, and the loops run on the rebound arrays.
\<close>

definition pair_selected :: "int \<Rightarrow> int \<Rightarrow> int list \<Rightarrow> int list \<Rightarrow> (int \<times> int) list" where
  "pair_selected rate points_per_sample high_sel low_sel =
     pair_outer (normalize rate points_per_sample high_sel)
       (normalize rate points_per_sample low_sel) []"

text \<open>
  Lines 65--74 and the call of the loops. The rate of a WAV file is an unsigned
  field, so \<open>low_band\<close> is not negative and \<open>diff_data[low_band:]\<close> drops
  \<open>low_band\<close> elements. The rising edges (\<open>low_ind\<close>) are selected first, on the
  differences, and the falling edges (\<open>high_ind\<close>) on the negated differences.
\<close>

definition find_outstanding_frequencies ::
  "library \<Rightarrow> real list \<Rightarrow> sndobj \<Rightarrow> int \<Rightarrow> error + (int \<times> int) list" where
  "find_outstanding_frequencies lib dat so points_per_sample =
     (let diff_data = np_diff dat;
          low_band = points_per_sample div 4;
          upper = drop (nat low_band) diff_data
      in case outstanding lib upper of
           Inl e \<Rightarrow> Inl e
         | Inr low_sel \<Rightarrow>
             (case outstanding lib (map uminus upper) of
                Inl e \<Rightarrow> Inl e
              | Inr high_sel \<Rightarrow>
                  Inr (pair_selected (fs so) points_per_sample
                         (map (\<lambda>i. int i + low_band) high_sel)
                         (map (\<lambda>i. int i + low_band) low_sel))))"

section \<open>extract_bandstop_frequencies (lines 104--133)\<close>

text \<open>
  A cluster is the dictionary \<open>{"data": c, "count": 1}\<close>; \<open>data\<close> is a row of two
  int64 values, the running sums of the low and of the high bounds.

  Every row handed to a cluster is a view of its own row of the copy made by
  \<open>np.array(candidates)\<close> on line 110; \<open>f["data"] += c\<close> writes into a row the
  iteration has already passed, so no later candidate reads an updated row and rows
  are modelled as values.
\<close>

record cluster =
  data :: "int \<times> int"
  count :: int

text \<open>Lines 106--107: the high column is raised, then the low column is lowered.\<close>

definition expand_margin :: "(int \<times> int) list \<Rightarrow> (int \<times> int) list" where
  "expand_margin candidates =
     map (\<lambda>(lo, hi). (lo - FREQUENCY_BANDSTOP_MARGIN, hi))
       (map (\<lambda>(lo, hi). (lo, hi + FREQUENCY_BANDSTOP_MARGIN)) candidates)"

definition avg :: "int \<times> int \<Rightarrow> real" where
  "avg c = real_of_int (fst c + snd c) / 2"

definition favg :: "cluster \<Rightarrow> real" where
  "favg f = real_of_int (fst (data f) + snd (data f)) / real_of_int (2 * count f)"

text \<open>
  Lines 113--119, the scan of \<open>final\<close> for candidate \<open>c\<close>: the first cluster close
  enough takes it and the scan breaks. The result is the flag \<open>placed\<close> and the list.
\<close>

fun scan_final :: "int \<times> int \<Rightarrow> cluster list \<Rightarrow> bool \<times> cluster list" where
  "scan_final c [] = (False, [])"
| "scan_final c (f # final) =
     (if \<bar>avg c - favg f\<bar> < real_of_int FREQUENCY_MAXIMUM_DIFFERENTIATING_DIFFERENCE
      then (True, f\<lparr>count := count f + 1,
                     data := (fst (data f) + fst c, snd (data f) + snd c)\<rparr> # final)
      else (let (placed, final') = scan_final c final in (placed, f # final')))"

text \<open>Lines 110--124, the loop over the candidates.\<close>

fun cluster_loop :: "(int \<times> int) list \<Rightarrow> cluster list \<Rightarrow> cluster list" where
  "cluster_loop [] final = final"
| "cluster_loop (c # candidates) final =
     (let (placed, final') = scan_final c final
      in cluster_loop candidates
           (if placed then final' else final @ [\<lparr>data = c, count = 1\<rparr>]))"

text \<open>Lines 126--131: \<open>f["data"]/f["count"]\<close> is a true division of both sums.\<close>

definition band :: "cluster \<Rightarrow> real \<times> real" where
  "band f = (real_of_int (fst (data f)) / real_of_int (count f),
             real_of_int (snd (data f)) / real_of_int (count f))"

fun confirm_loop :: "cluster list \<Rightarrow> (real \<times> real) list \<Rightarrow> (real \<times> real) list" where
  "confirm_loop [] ret = ret"
| "confirm_loop (f # final) ret =
     confirm_loop final (if count f > FREQUENCY_MINIMUM_COUNT then ret @ [band f] else ret)"

text \<open>
  \<open>np.array([])\<close> has one dimension, so \<open>candidates[:,1]\<close> raises \<open>IndexError\<close>
  when no candidate was collected.
\<close>

definition extract_bandstop_frequencies :: "(int \<times> int) list \<Rightarrow> error + (real \<times> real) list" where
  "extract_bandstop_frequencies cand =
     (if cand = [] then Inl IndexError
      else Inr (confirm_loop (cluster_loop (expand_margin cand) []) []))"

section \<open>bandstop (lines 139--155)\<close>

text \<open>
  The frequencies are numpy float64 pairs; they are modelled as reals, so rounding is
  not part of the model. A float64 division by zero gives \<open>inf\<close> or \<open>nan\<close> with a
  warning and raises nothing. \<open>q\<close> on line 146 is computed and never used.
\<close>

fun bandstop :: "library \<Rightarrow> (real \<times> real) list \<Rightarrow> real list \<Rightarrow> sndobj \<Rightarrow> error + real list" where
  "bandstop lib [] sound_data so = Inr sound_data"
| "bandstop lib (ft # frequencies) sound_data so =
     (let center = (fst ft + snd ft) / 2;
          w0 = center / (real_of_int (fs so) / 2);
          dist = \<bar>fst ft - snd ft\<bar>;
          q = 2 * center / dist;
          dist = (if dist < 10 then 10 else dist)
      in case iirnotch lib w0 (2 * center / dist) of
           Inl e \<Rightarrow> Inl e
         | Inr (fa, fb) \<Rightarrow>
             (case filtfilt lib fa fb sound_data of
                Inl e \<Rightarrow> Inl e
              | Inr filtered \<Rightarrow> bandstop lib frequencies filtered so))"

section \<open>parse (lines 159--193)\<close>

text \<open>Python's \<open>a[i:j]\<close>, with negative positions counted from the end.\<close>

definition py_pos :: "nat \<Rightarrow> int \<Rightarrow> nat" where
  "py_pos n k = (if k < 0 then nat (int n + k) else min (nat k) n)"

definition py_slice :: "int \<Rightarrow> int \<Rightarrow> 'a list \<Rightarrow> 'a list" where
  "py_slice i j a = drop (py_pos (length a) i) (take (py_pos (length a) j) a)"

text \<open>\<open>range(0, stop, step)\<close> as a list; a zero step raises \<open>ValueError\<close>.\<close>

definition py_range :: "int \<Rightarrow> int \<Rightarrow> error + int list" where
  "py_range stop step =
     (if step = 0 then Inl ValueError
      else Inr (map (\<lambda>k. int k * step)
                  [0..<nat (if step > 0 then (stop + step - 1) div step
                            else (stop + step + 1) div step)]))"

text \<open>
  Lines 167--170 for the window that starts at \<open>i\<close>; scipy's \<open>fft\<close> raises
  \<open>ValueError\<close> on an empty array.
\<close>

definition real_data :: "library \<Rightarrow> real list \<Rightarrow> int \<Rightarrow> int \<Rightarrow> error + real list" where
  "real_data lib sound_data points_per_sample i =
     (let window = py_slice i (i + points_per_sample) sound_data
      in if window = [] then Inl ValueError
         else (let fft_data = fft lib window;
                   real_length = int (length fft_data) div 2
               in Inr (map cmod (py_slice 0 (real_length - 1) fft_data))))"

text \<open>Lines 165--181 for one window: the candidates \<open>sample_freqs\<close>.\<close>

definition sample_freqs :: "library \<Rightarrow> real list \<Rightarrow> sndobj \<Rightarrow> int \<Rightarrow> int \<Rightarrow> error + (int \<times> int) list" where
  "sample_freqs lib sound_data so points_per_sample i =
     (case real_data lib sound_data points_per_sample i of
        Inl e \<Rightarrow> Inl e
      | Inr dat \<Rightarrow> find_outstanding_frequencies lib dat so points_per_sample)"

fun window_loop ::
  "library \<Rightarrow> real list \<Rightarrow> sndobj \<Rightarrow> int \<Rightarrow> int list \<Rightarrow> (int \<times> int) list \<Rightarrow> error + (int \<times> int) list" where
  "window_loop lib sound_data so points_per_sample [] candidate_frequencies =
     Inr candidate_frequencies"
| "window_loop lib sound_data so points_per_sample (i # starts) candidate_frequencies =
     (case sample_freqs lib sound_data so points_per_sample i of
        Inl e \<Rightarrow> Inl e
      | Inr found \<Rightarrow>
          window_loop lib sound_data so points_per_sample starts (candidate_frequencies @ found))"

definition points_per_sample_of :: "sndobj \<Rightarrow> int" where
  "points_per_sample_of so = (FFT_SAMPLE_SIZE * fs so) div 1000"

text \<open>Lines 161--181: the candidates of all windows of a channel, in window order.\<close>

definition candidate_frequencies :: "library \<Rightarrow> real list \<Rightarrow> sndobj \<Rightarrow> error + (int \<times> int) list" where
  "candidate_frequencies lib sound_data so =
     (case py_range (samples so) (points_per_sample_of so) of
        Inl e \<Rightarrow> Inl e
      | Inr starts \<Rightarrow> window_loop lib sound_data so (points_per_sample_of so) starts [])"


section \<open>process and the loop over the files (lines 28--60, 195--196)\<close>







section \<open>Bookkeeping for the clusters\<close>

text \<open>
  The aggregation loop once more, with every cluster carrying the list of the
  candidates merged into it. The list is never read by the loop; erasing it gives
  \<open>scan_final\<close> and \<open>cluster_loop\<close> back.
\<close>

fun scan_traced ::
  "int \<times> int \<Rightarrow> (cluster \<times> (int \<times> int) list) list \<Rightarrow> bool \<times> (cluster \<times> (int \<times> int) list) list" where
  "scan_traced c [] = (False, [])"
| "scan_traced c ((f, merged) # final) =
     (if \<bar>avg c - favg f\<bar> < real_of_int FREQUENCY_MAXIMUM_DIFFERENTIATING_DIFFERENCE
      then (True, (f\<lparr>count := count f + 1,
                      data := (fst (data f) + fst c, snd (data f) + snd c)\<rparr>, merged @ [c]) # final)
      else (let (placed, final') = scan_traced c final in (placed, (f, merged) # final')))"

fun cluster_traced ::
  "(int \<times> int) list \<Rightarrow> (cluster \<times> (int \<times> int) list) list \<Rightarrow> (cluster \<times> (int \<times> int) list) list" where
  "cluster_traced [] final = final"
| "cluster_traced (c # candidates) final =
     (let (placed, final') = scan_traced c final
      in cluster_traced candidates
           (if placed then final' else final @ [(\<lparr>data = c, count = 1\<rparr>, [c])]))"

definition mean :: "int list \<Rightarrow> real" where
  "mean xs = real_of_int (sum_list xs) / real (length xs)"

text \<open>
  A cluster agrees with its list when its sums are the sums of the listed bounds and
  its count is their number.
\<close>

definition agrees :: "cluster \<times> (int \<times> int) list \<Rightarrow> bool" where
  "agrees t =
     (snd t \<noteq> [] \<and>
      data (fst t) = (sum_list (map fst (snd t)), sum_list (map snd (snd t))) \<and>
      count (fst t) = int (length (snd t)))"

section \<open>A reference library\<close>










section \<open>The candidate band extractor\<close>

lemma pair_inner_append:
  "pair_inner ind1 low_ind ret =
     ret @ map (\<lambda>ind2. (min ind1 ind2, max ind1 ind2))
             (filter (\<lambda>ind2. \<bar>ind1 - ind2\<bar> < 50) low_ind)"
  by (induction low_ind arbitrary: ret)
     (auto simp: FREQUENCY_MAXIMUM_DIFFERENTIATING_DIFFERENCE_def min_def max_def)

lemma pair_outer_append:
  "pair_outer high_ind low_ind ret =
     ret @ map (\<lambda>(ind1, ind2). (min ind1 ind2, max ind1 ind2))
             (filter (\<lambda>(ind1, ind2). \<bar>ind1 - ind2\<bar> < 50) (List.product high_ind low_ind))"
  by (induction high_ind arbitrary: ret)
     (simp_all add: pair_inner_append filter_map comp_def)

lemma pair_selected_product:
  "pair_selected rate points_per_sample high_sel low_sel =
     map (\<lambda>(falling, rising). (min falling rising, max falling rising))
       (filter (\<lambda>(falling, rising). \<bar>falling - rising\<bar> < 50)
          (List.product (map (\<lambda>i. (i * rate) div points_per_sample) high_sel)
                        (map (\<lambda>i. (i * rate) div points_per_sample) low_sel)))"
  by (simp add: pair_selected_def normalize_def pair_outer_append)

text \<open>
  C1, as the code has it. The loops of lines 97--100 run over the arrays that lines
  77--78 have already converted to Hz. For the selected falling-edge bins
  \<open>high_sel\<close> and rising-edge bins \<open>low_sel\<close>, the candidates are, in loop order, one
  pair \<open>(min, max)\<close> for every (falling, rising) pair whose converted values
  \<open>index * rate div points_per_sample\<close> differ by less than 50 in absolute value,
  and nothing else.
\<close>

theorem candidate_emitted_on_hz_difference:
  "pair_selected rate points_per_sample high_sel low_sel =
     map (\<lambda>(falling, rising). (min falling rising, max falling rising))
       (filter (\<lambda>(falling, rising). \<bar>falling - rising\<bar> < 50)
          (List.product (map (\<lambda>i. (i * rate) div points_per_sample) high_sel)
                        (map (\<lambda>i. (i * rate) div points_per_sample) low_sel)))"
  by (rule pair_selected_product)

text \<open>
  C1 as stated fails. At 44100 Hz a window has 441000 points. The falling edge at bin
  110300 and the rising edge at bin 110400 are 100 bins apart, which is not below 50,
  and yet the candidate (11030, 11040) is emitted, because the two are 10 Hz apart.
\<close>

theorem bin_difference_counterexample:
  "pair_selected 44100 441000 [110300, 150000, 200000] [110400, 160000, 210000]
     = [(11030, 11040)] \<and> \<not> \<bar>110300 - 110400\<bar> < (50::int)"
  by (simp add: pair_selected_def normalize_def
        FREQUENCY_MAXIMUM_DIFFERENTIATING_DIFFERENCE_def)

subsection \<open>Bounds on the candidates of a window\<close>









section \<open>The band cluster aggregator\<close>

lemma confirm_loop_append:
  "confirm_loop final ret = ret @ map band (filter (\<lambda>f. 20 < count f) final)"
  by (induction final arbitrary: ret) (simp_all add: FREQUENCY_MINIMUM_COUNT_def)

lemma expand_margin_map:
  "expand_margin cand = map (\<lambda>(lo, hi). (lo - 50, hi + 50)) cand"
  by (simp add: expand_margin_def FREQUENCY_BANDSTOP_MARGIN_def comp_def case_prod_beta)

text \<open>
  C4. The last loop turns a cluster into a band exactly when its count is greater
  than 20: the bands returned are the bands of the clusters with \<open>20 < count\<close>, in
  the order of the clusters, and the other clusters are dropped.
\<close>

theorem cluster_confirmed_iff_count_exceeds_20:
  "confirm_loop final [] = map band (filter (\<lambda>f. 20 < count f) final) \<and>
   extract_bandstop_frequencies cand =
     (if cand = [] then Inl IndexError
      else Inr (map band (filter (\<lambda>f. 20 < count f) (cluster_loop (expand_margin cand) []))))"
  by (simp add: extract_bandstop_frequencies_def confirm_loop_append)

text \<open>
  C9. Expanding by the margin turns every candidate \<open>(low, high)\<close> into
  \<open>(low - 50, high + 50)\<close>, and the clusters and the bands are computed from the
  expanded candidates alone.
\<close>

theorem margin_expansion:
  "expand_margin cand = map (\<lambda>(low, high). (low - 50, high + 50)) cand \<and>
   extract_bandstop_frequencies cand =
     (if cand = [] then Inl IndexError
      else Inr (confirm_loop
                  (cluster_loop (map (\<lambda>(low, high). (low - 50, high + 50)) cand) []) []))"
  by (simp add: extract_bandstop_frequencies_def expand_margin_map)

text \<open>
  C5. Two candidates end in one cluster of count 2 when their expanded midpoints
  differ by less than 50, and in two clusters of count 1 otherwise, so also when the
  midpoints differ by more than 50. Each cluster then passes or fails the count test
  on its own.
\<close>

theorem two_candidates:
  "cluster_loop (expand_margin [(low1, high1), (low2, high2)]) [] =
     (if \<bar>avg (low1 - 50, high1 + 50) - avg (low2 - 50, high2 + 50)\<bar> < 50
      then [\<lparr>data = ((low1 - 50) + (low2 - 50), (high1 + 50) + (high2 + 50)), count = 2\<rparr>]
      else [\<lparr>data = (low1 - 50, high1 + 50), count = 1\<rparr>,
            \<lparr>data = (low2 - 50, high2 + 50), count = 1\<rparr>]) \<and>
   extract_bandstop_frequencies [(low1, high1), (low2, high2)] =
     Inr (map band (filter (\<lambda>f. 20 < count f)
            (cluster_loop (expand_margin [(low1, high1), (low2, high2)]) [])))"
proof -
  have "\<bar>avg (low2 - 50, high2 + 50) - avg (low1 - 50, high1 + 50)\<bar> =
        \<bar>avg (low1 - 50, high1 + 50) - avg (low2 - 50, high2 + 50)\<bar>"
    by (rule abs_minus_commute)
  moreover have "favg \<lparr>data = (low1 - 50, high1 + 50), count = 1\<rparr> = avg (low1 - 50, high1 + 50)"
    by (simp add: favg_def avg_def)
  ultimately show ?thesis
    by (simp add: expand_margin_map extract_bandstop_frequencies_def confirm_loop_append
          FREQUENCY_MAXIMUM_DIFFERENTIATING_DIFFERENCE_def)
qed

subsection \<open>Clusters and the candidates merged into them\<close>

lemma scan_traced_erase:
  "scan_final c (map fst t) = (fst (scan_traced c t), map fst (snd (scan_traced c t)))"
  by (induction t) (auto simp: case_prod_beta)

lemma cluster_traced_erase:
  "map fst (cluster_traced cs t) = cluster_loop cs (map fst t)"
proof (induction cs arbitrary: t)
  case Nil
  show ?case by simp
next
  case (Cons c cs)
  show ?case
    by (simp add: scan_traced_erase case_prod_beta Cons.IH)
qed

lemma scan_traced_agrees:
  "list_all agrees t \<Longrightarrow> list_all agrees (snd (scan_traced c t))"
  by (induction t) (auto simp: case_prod_beta agrees_def)

lemma cluster_traced_agrees:
  "list_all agrees t \<Longrightarrow> list_all agrees (cluster_traced cs t)"
proof (induction cs arbitrary: t)
  case Nil
  then show ?case by simp
next
  case (Cons c cs)
  have "agrees (\<lparr>data = c, count = 1\<rparr>, [c])"
    by (simp add: agrees_def)
  with Cons.prems show ?case
    by (simp add: case_prod_beta Cons.IH scan_traced_agrees)
qed

lemma scan_traced_mset:
  "fst (scan_traced c t) \<Longrightarrow>
     mset (concat (map snd (snd (scan_traced c t)))) = mset (concat (map snd t)) + {#c#}"
  by (induction t) (auto simp: case_prod_beta split: if_splits)

lemma cluster_traced_mset:
  "mset (concat (map snd (cluster_traced cs t))) = mset (concat (map snd t)) + mset cs"
proof (induction cs arbitrary: t)
  case Nil
  show ?case by simp
next
  case (Cons c cs)
  show ?case
    by (cases "fst (scan_traced c t)")
       (simp_all add: case_prod_beta Cons.IH scan_traced_mset)
qed

lemma agrees_band:
  "agrees (f, merged) \<Longrightarrow> band f = (mean (map fst merged), mean (map snd merged))"
  by (simp add: agrees_def band_def mean_def)

lemma cluster_loop_append:
  "cluster_loop (processed @ rest) final = cluster_loop rest (cluster_loop processed final)"
  by (induction processed arbitrary: final) (simp_all add: case_prod_beta)

lemma cluster_traced_start: "list_all agrees (cluster_traced cs [])"
  by (rule cluster_traced_agrees) simp

text \<open>
  C6. After any list \<open>processed\<close> of expanded candidates has gone through the loop,
  so at every point of the aggregation, every cluster holds the sums of the bounds of
  the candidates merged into it and their number, and its band
  \<open>(sumLow / count, sumHigh / count)\<close> is the plain mean of their low bounds and of
  their high bounds. The lists are bookkeeping only (erasing them gives the loop of
  the program), every candidate is merged into exactly one cluster, the loop over a
  longer list continues from the state reached on a prefix, and the bands returned
  are the means of the clusters that pass the count test.
\<close>

theorem cluster_band_is_mean:
  "(\<forall>(f, merged) \<in> set (cluster_traced processed []).
      merged \<noteq> [] \<and> count f = int (length merged) \<and>
      data f = (sum_list (map fst merged), sum_list (map snd merged)) \<and>
      band f = (mean (map fst merged), mean (map snd merged))) \<and>
   map fst (cluster_traced processed []) = cluster_loop processed [] \<and>
   mset (concat (map snd (cluster_traced processed []))) = mset processed \<and>
   cluster_loop (processed @ rest) [] = cluster_loop rest (cluster_loop processed []) \<and>
   extract_bandstop_frequencies cand =
     (if cand = [] then Inl IndexError
      else Inr (map (\<lambda>(f, merged). (mean (map fst merged), mean (map snd merged)))
                  (filter (\<lambda>(f, merged). 20 < count f)
                     (cluster_traced (expand_margin cand) []))))"
proof -
  have 1: "\<forall>(f, merged) \<in> set (cluster_traced processed []).
      merged \<noteq> [] \<and> count f = int (length merged) \<and>
      data f = (sum_list (map fst merged), sum_list (map snd merged)) \<and>
      band f = (mean (map fst merged), mean (map snd merged))"
    using cluster_traced_start [of processed] agrees_band
    by (auto simp: list_all_iff agrees_def)
  have 2: "map fst (cluster_traced processed []) = cluster_loop processed []"
    by (simp add: cluster_traced_erase)
  have 3: "mset (concat (map snd (cluster_traced processed []))) = mset processed"
    by (simp add: cluster_traced_mset)
  have 4: "cluster_loop (processed @ rest) [] = cluster_loop rest (cluster_loop processed [])"
    by (rule cluster_loop_append)
  have "map band (filter (\<lambda>f. 20 < count f) (map fst t)) =
        map (\<lambda>(f, merged). (mean (map fst merged), mean (map snd merged)))
          (filter (\<lambda>(f, merged). 20 < count f) t)" if "list_all agrees t" for t
    using that by (induction t) (auto simp: agrees_band)
  from this [OF cluster_traced_start [of "expand_margin cand"]]
  have 5: "extract_bandstop_frequencies cand =
     (if cand = [] then Inl IndexError
      else Inr (map (\<lambda>(f, merged). (mean (map fst merged), mean (map snd merged)))
                  (filter (\<lambda>(f, merged). 20 < count f)
                     (cluster_traced (expand_margin cand) []))))"
    by (simp add: extract_bandstop_frequencies_def confirm_loop_append cluster_traced_erase)
  from 1 2 3 4 5 show ?thesis by blast
qed

text \<open>
  C6 at three expanded candidates: the first two, with midpoints 105 and 115, share a
  cluster whose band (55, 165) is the mean of their bounds; the third stands alone.
\<close>

theorem cluster_band_is_mean_witness:
  "cluster_traced [(50, 160), (60, 170), (950, 1060)] [] =
     [(\<lparr>data = (110, 330), count = 2\<rparr>, [(50, 160), (60, 170)]),
      (\<lparr>data = (950, 1060), count = 1\<rparr>, [(950, 1060)])] \<and>
   band \<lparr>data = (110, 330), count = 2\<rparr> = (mean [50, 60], mean [160, 170]) \<and>
   band \<lparr>data = (110, 330), count = 2\<rparr> = (55, 165) \<and>
   cluster_loop [(50, 160), (60, 170), (950, 1060)] [] =
     [\<lparr>data = (110, 330), count = 2\<rparr>, \<lparr>data = (950, 1060), count = 1\<rparr>]"
  using cluster_band_is_mean [of "[(50, 160), (60, 170), (950, 1060)]" "[]" "[(100, 110)]"]
  by (simp add: avg_def favg_def band_def mean_def
        FREQUENCY_MAXIMUM_DIFFERENTIATING_DIFFERENCE_def)

subsection \<open>Counts are bounded by the number of candidates\<close>






section \<open>The notch filter pipeline\<close>

text \<open>
  C7. For a band \<open>(low, high)\<close> the filter is designed with the normalized center
  \<open>((low + high) / 2) / (fs / 2)\<close> and the quality factor \<open>2 * center / dist\<close>,
  where \<open>dist\<close> is \<open>\<bar>high - low\<bar>\<close> raised to 10 when it is smaller; the filter is
  applied to the signal and the remaining bands work on the filtered signal.
\<close>

theorem notch_arguments:
  "bandstop lib ((low, high) # frequencies) sound_data so =
     (case iirnotch lib (((low + high) / 2) / (real_of_int (fs so) / 2))
             (2 * ((low + high) / 2) / max 10 \<bar>high - low\<bar>) of
        Inl e \<Rightarrow> Inl e
      | Inr (fa, fb) \<Rightarrow>
          (case filtfilt lib fa fb sound_data of
             Inl e \<Rightarrow> Inl e
           | Inr filtered \<Rightarrow> bandstop lib frequencies filtered so))"
  by (simp add: Let_def max_def abs_minus_commute)

section \<open>The pipeline of a channel\<close>


















section \<open>The reference library on zero signals\<close>









subsection \<open>Silent channels at 8000 Hz\<close>




















section \<open>Files\<close>








end
